theory Spec2Isabelle
  imports Main "HOL-Library.Char_ord"
begin

section \<open>Python values\<close>

text \<open>
  Python strings are modelled as \<open>string\<close>, each \<open>char\<close> standing for one code point
  below 256; Python lists as HOL lists; Python's unbounded integers as \<open>int\<close>, and as
  \<open>nat\<close> where the source can only produce a non-negative value.

  The exceptions that the modelled code can meet. \<open>FunctionTimedOut\<close> (package
  func_timeout) and \<open>StopThreadException\<close> (zero/common/utils.py) derive from
  \<open>BaseException\<close>, the others from \<open>Exception\<close>. \<open>OtherException\<close> stands for any
  further subclass of \<open>Exception\<close>, named by its text.
\<close>

datatype py_exception =
    FunctionTimedOut
  | StopThreadException
  | IndexError
  | KeyError
  | AttributeError
  | UnboundLocalError
  | FileNotFoundError
  | ValueError
  | OverflowError
  | OtherException string

text \<open>\<open>isinstance(e, Exception)\<close>, the test of \<^verbatim>\<open>except Exception\<close>.\<close>

definition is_Exception :: "py_exception \<Rightarrow> bool" where
  "is_Exception e = (e \<noteq> FunctionTimedOut \<and> e \<noteq> StopThreadException)"

text \<open>
  List slicing \<^verbatim>\<open>xs[start:stop]\<close> with integer bounds, as CPython adjusts them: a
  negative bound has the length added to it and becomes 0 when still negative, a bound
  beyond the length becomes the length, and the slice is empty unless the adjusted
  start lies before the adjusted stop.
\<close>

definition adjust_index :: "int \<Rightarrow> int \<Rightarrow> int" where
  "adjust_index n i =
     (if i < 0 then (if i + n < 0 then 0 else i + n) else if n \<le> i then n else i)"

definition py_slice :: "'a list \<Rightarrow> int \<Rightarrow> int \<Rightarrow> 'a list" where
  "py_slice xs start stop =
     (let n = int (length xs); s = adjust_index n start; e = adjust_index n stop
      in if s < e then take (nat (e - s)) (drop (nat s) xs) else [])"

text \<open>\<^verbatim>\<open>sep.join(xs)\<close>.\<close>

fun join :: "string \<Rightarrow> string list \<Rightarrow> string" where
  "join sep [] = []"
| "join sep [x] = x"
| "join sep (x # y # ys) = x @ sep @ join sep (y # ys)"

text \<open>
  \<open>str.isspace\<close> on one character. \<open>str.strip()\<close> and the class \<^verbatim>\<open>\s\<close> of a \<open>str\<close>
  pattern both use it. Below 256 the white-space code points are 9 to 13, 28 to 32,
  133 and 160.
\<close>

definition py_isspace :: "char \<Rightarrow> bool" where
  "py_isspace c = (of_char c \<in> {9, 10, 11, 12, 13, 28, 29, 30, 31, 32, 133, 160 :: nat})"

text \<open>\<^verbatim>\<open>s.strip()\<close>: white space is dropped at both ends.\<close>

definition strip :: "string \<Rightarrow> string" where
  "strip s = rev (dropWhile py_isspace (rev (dropWhile py_isspace s)))"

section \<open>The adventure (zero/common/adventure.py)\<close>

text \<open>Class \<open>Adventure\<close> holds five fields.\<close>

record adventure =
  name :: string
  "context" :: string
  memory :: string
  actions :: "string list"
  results :: "string list"

text \<open>
  The dictionary of \<open>to_dict\<close> and \<open>from_dict\<close>, which is also the content of a save
  file: \<open>json.dump\<close> writes it and \<open>json.load\<close> reads it back (both of Python's
  library; a dictionary of strings and lists of strings is read back as it was
  written). A value is a string or a list of strings.
\<close>

datatype py_value = PyStr string | PyList "string list"

type_synonym py_dict = "string \<rightharpoonup> py_value"

definition to_dict :: "adventure \<Rightarrow> py_dict" where
  "to_dict adv =
     [''name'' \<mapsto> PyStr (name adv),
      ''context'' \<mapsto> PyStr (context adv),
      ''memory'' \<mapsto> PyStr (memory adv),
      ''actions'' \<mapsto> PyList (actions adv),
      ''results'' \<mapsto> PyList (results adv)]"

text \<open>
  \<open>from_dict\<close> assigns the five fields one after the other, so a missing key raises
  \<open>KeyError\<close> after the earlier fields have been assigned: the result is the adventure
  as the call leaves it, and the exception if one was raised. The source stores any
  value unchecked; a value that is not of the field's declared type (\<open>str\<close>,
  \<open>List[str]\<close>) has no place in \<open>adventure\<close>, and the model stops at that field with
  \<open>OtherException ''ill-typed''\<close>.
\<close>

definition get_str :: "py_dict \<Rightarrow> string \<Rightarrow> py_exception + string" where
  "get_str d k =
     (case d k of None \<Rightarrow> Inl KeyError
      | Some (PyStr s) \<Rightarrow> Inr s
      | Some (PyList _) \<Rightarrow> Inl (OtherException ''ill-typed''))"

definition get_list :: "py_dict \<Rightarrow> string \<Rightarrow> py_exception + string list" where
  "get_list d k =
     (case d k of None \<Rightarrow> Inl KeyError
      | Some (PyList l) \<Rightarrow> Inr l
      | Some (PyStr _) \<Rightarrow> Inl (OtherException ''ill-typed''))"

definition from_dict :: "adventure \<Rightarrow> py_dict \<Rightarrow> adventure \<times> py_exception option" where
  "from_dict adv d =
     (case get_str d ''name'' of Inl e \<Rightarrow> (adv, Some e) | Inr n \<Rightarrow>
      let adv1 = adv\<lparr>name := n\<rparr> in
      case get_str d ''context'' of Inl e \<Rightarrow> (adv1, Some e) | Inr c \<Rightarrow>
      let adv2 = adv1\<lparr>context := c\<rparr> in
      case get_str d ''memory'' of Inl e \<Rightarrow> (adv2, Some e) | Inr m \<Rightarrow>
      let adv3 = adv2\<lparr>memory := m\<rparr> in
      case get_list d ''actions'' of Inl e \<Rightarrow> (adv3, Some e) | Inr a \<Rightarrow>
      let adv4 = adv3\<lparr>actions := a\<rparr> in
      case get_list d ''results'' of Inl e \<Rightarrow> (adv4, Some e) | Inr r \<Rightarrow>
      (adv4\<lparr>results := r\<rparr>, None))"

text \<open>
  Property \<open>story\<close>: \<^verbatim>\<open>[s for p in zip(self.actions, self.results) for s in p]\<close>.
  \<open>zip\<close> stops at the shorter list, in Python as in HOL.
\<close>

definition story :: "adventure \<Rightarrow> string list" where
  "story adv = concat (map (\<lambda>(a, r). [a, r]) (zip (actions adv) (results adv)))"

text \<open>
  Property \<open>full_story\<close>: \<^verbatim>\<open>([self.context] if self.context else []) + self.story\<close>.
  A string is truthy exactly when it is not empty.
\<close>

definition full_story :: "adventure \<Rightarrow> string list" where
  "full_story adv = (if context adv \<noteq> [] then [context adv] else []) @ story adv"

text \<open>
  \<open>get_ai_story(start, end)\<close>: \<open>None\<close> stands for 0 and for \<open>len(self.story)\<close>; the
  result is the context when not empty, the memory, and the slice
  \<^verbatim>\<open>self.story[start:end]\<close>.
\<close>

definition get_ai_story :: "adventure \<Rightarrow> int option \<Rightarrow> int option \<Rightarrow> string list" where
  "get_ai_story adv start end =
     (let start = (case start of None \<Rightarrow> 0 | Some s \<Rightarrow> s);
          end = (case end of None \<Rightarrow> int (length (story adv)) | Some e \<Rightarrow> e);
          result = (if context adv \<noteq> [] then [context adv] else []);
          result = result @ [memory adv];
          result = result @ py_slice (story adv) start end
      in result)"

section \<open>The save name (zero/common/utils.py)\<close>

text \<open>
  \<^verbatim>\<open>re.sub(r'\s+', '_', s)\<close>: from left to right, every maximal run of white space is
  replaced by one underscore.
\<close>

function sub_whitespace :: "string \<Rightarrow> string" where
  "sub_whitespace [] = []"
| "sub_whitespace (c # cs) =
     (if py_isspace c then CHR ''_'' # sub_whitespace (dropWhile py_isspace cs)
      else c # sub_whitespace cs)"
  by pat_completeness auto
termination
  by (relation "measure length") (auto simp: length_dropWhile_le less_Suc_eq_le)

text \<open>
  The class \<^verbatim>\<open>[a-zA-Z0-9_-]\<close>; \<^verbatim>\<open>re.sub(r'[^a-zA-Z0-9_-]', '', s)\<close> keeps exactly the
  characters of this class.
\<close>

definition is_save_char :: "char \<Rightarrow> bool" where
  "is_save_char c =
     ((CHR ''a'' \<le> c \<and> c \<le> CHR ''z'') \<or> (CHR ''A'' \<le> c \<and> c \<le> CHR ''Z'')
      \<or> (CHR ''0'' \<le> c \<and> c \<le> CHR ''9'') \<or> c = CHR ''_'' \<or> c = CHR ''-'')"

definition get_save_name :: "string \<Rightarrow> string" where
  "get_save_name adventure_name =
     (let adventure_name = sub_whitespace (strip adventure_name);
          adventure_name = filter is_save_char adventure_name
      in adventure_name)"

text \<open>
  The save name as the specification words it: strip, collapse every white-space run to
  one separator, then remove every character that is not a letter, a digit, \<open>_\<close> or
  \<open>-\<close>. The run collapsing is written with a flag that tells whether the previous
  character was white space.
\<close>

fun collapse_runs :: "bool \<Rightarrow> string \<Rightarrow> string" where
  "collapse_runs in_run [] = []"
| "collapse_runs in_run (c # cs) =
     (if py_isspace c then (if in_run then collapse_runs True cs
                            else CHR ''_'' # collapse_runs True cs)
      else c # collapse_runs False cs)"

definition is_alnum :: "char \<Rightarrow> bool" where
  "is_alnum c = (c \<in> set ''abcdefghijklmnopqrstuvwxyzABCDEFGHIJKLMNOPQRSTUVWXYZ0123456789'')"

definition save_name_spec :: "string \<Rightarrow> string" where
  "save_name_spec raw_name =
     filter (\<lambda>c. is_alnum c \<or> c = CHR ''_'' \<or> c = CHR ''-'')
       (collapse_runs False (strip raw_name))"

section \<open>The application and the play screen (zero/main/app.py, zero/main/ui/play.py)\<close>

text \<open>
  What the code reads and never writes: the configuration values \<open>ai.memory\<close> and
  \<open>general.autosave\<close>, the loaded filters, and the generator. \<open>func_timeout_generate\<close>
  is the call \<^verbatim>\<open>func_timeout(timeout, self.app.ai.generate, args=(story, ...))\<close> as a
  function of the prompt \<open>story\<close>: it returns the generated text, or raises
  \<open>FunctionTimedOut\<close> when the time is over, or raises another exception when the
  generator failed. The time limit and the six generation parameters are configuration
  values handed over unchanged; they are part of this function.
  \<open>int_max_str_digits\<close> is the interpreter's limit on the digits of a decimal string
  that \<open>int\<close> converts (\<open>sys.get_int_max_str_digits()\<close>: 4300 unless set otherwise, and
  0 where there is no limit, as in the interpreters released before the limit existed).
\<close>

record env =
  cfg_memory :: int
  cfg_autosave :: bool
  input_filters :: "(string \<Rightarrow> string) list"
  output_filters :: "(string \<Rightarrow> string) list"
  display_filter :: "string list \<Rightarrow> string"
  func_timeout_generate :: "string \<Rightarrow> py_exception + string"
  int_max_str_digits :: nat

text \<open>
  What the code writes: the adventure, the fields and widgets of the play screen, the
  worker threads that \<open>on_send\<close> has started and that have not run yet (each with its
  argument \<open>text\<close>), the error popups opened so far (each with its text), and the save
  files of the adventures directory, by save name.
\<close>

record app =
  adventure :: adventure
  mode :: string
  edit_index :: nat
  input_text :: string
  input_disabled :: bool
  button_send_disabled :: bool
  title_text :: string
  output_text :: string
  send_threads :: "string list"
  popups :: "string list"
  savefiles :: "string \<rightharpoonup> py_dict"

subsection \<open>Saving and loading\<close>

text \<open>
  \<open>save_adventure\<close> writes \<open>to_dict\<close> to the file named by the save name;
  \<open>load_adventure\<close> reads the file named by the save name of the current adventure and
  hands its content to \<open>from_dict\<close>; \<open>open\<close> raises \<open>FileNotFoundError\<close> when there is
  no such file.
\<close>

definition save_adventure :: "app \<Rightarrow> app" where
  "save_adventure st =
     (let savefile = get_save_name (name (adventure st))
      in st\<lparr>savefiles := (savefiles st)(savefile \<mapsto> to_dict (adventure st))\<rparr>)"

definition load_adventure :: "app \<Rightarrow> app \<times> py_exception option" where
  "load_adventure st =
     (let savefile = get_save_name (name (adventure st))
      in case savefiles st savefile of
           None \<Rightarrow> (st, Some FileNotFoundError)
         | Some d \<Rightarrow>
             (case from_dict (adventure st) d of
                (adv, exc) \<Rightarrow> (st\<lparr>adventure := adv\<rparr>, exc)))"

subsection \<open>Filters and display\<close>

text \<open>\<open>filter_input\<close> and \<open>filter_output\<close> apply the loaded filters in order.\<close>

definition filter_input :: "env \<Rightarrow> string \<Rightarrow> string" where
  "filter_input e text = foldl (\<lambda>result f. f result) text (input_filters e)"

definition filter_output :: "env \<Rightarrow> string \<Rightarrow> string" where
  "filter_output e text = foldl (\<lambda>result f. f result) text (output_filters e)"

text \<open>
  \<open>on_update\<close> sets the title, clears the input on request and renders the full story.
  The scroll position is left out.
\<close>

definition on_update :: "env \<Rightarrow> app \<Rightarrow> bool \<Rightarrow> app" where
  "on_update e st clear_input =
     (let st = st\<lparr>title_text := name (adventure st)\<rparr>;
          st = (if clear_input then st\<lparr>input_text := []\<rparr> else st)
      in st\<lparr>output_text := display_filter e (full_story (adventure st))\<rparr>)"

definition try_autosave :: "env \<Rightarrow> app \<Rightarrow> app" where
  "try_autosave e st = (if cfg_autosave e then save_adventure st else st)"

subsection \<open>Generation\<close>

text \<open>
  The entries that \<open>_generate\<close> hands to the generator (its first five lines):
  \<^verbatim>\<open>
  story_len = len(self.app.adventure.story)
  end = story_len if end is None else end
  memory = self.app.config.getint('ai', 'memory')
  memory = story_len if memory <= 0 else min(memory, end)
  story = self.app.adventure.get_ai_story(end-memory, end)
  \<close>
\<close>

definition generate_story :: "int \<Rightarrow> adventure \<Rightarrow> int option \<Rightarrow> string list" where
  "generate_story cfg_mem adv end =
     (let story_len = int (length (story adv));
          end = (case end of None \<Rightarrow> story_len | Some e \<Rightarrow> e);
          memory = (if cfg_mem \<le> 0 then story_len else min cfg_mem end)
      in get_ai_story adv (Some (end - memory)) (Some end))"

text \<open>The prompt: \<^verbatim>\<open>' '.join(story) + (' ' + text if text else '')\<close>.\<close>

definition generate_prompt :: "int \<Rightarrow> adventure \<Rightarrow> string \<Rightarrow> int option \<Rightarrow> string" where
  "generate_prompt cfg_mem adv text end =
     join '' '' (generate_story cfg_mem adv end) @ (if text \<noteq> [] then '' '' @ text else [])"

text \<open>
  \<open>_generate(text, record, end)\<close>: an exception of the generator call leaves the
  function before anything is recorded; otherwise the output is filtered and, when
  \<open>record\<close> is set, the text and the result are appended. The result is the adventure
  after the call, and the exception raised or the value returned.
\<close>

definition generate ::
  "env \<Rightarrow> adventure \<Rightarrow> string \<Rightarrow> bool \<Rightarrow> int option \<Rightarrow> adventure \<times> (py_exception + string)" where
  "generate e adv text rec end =
     (case func_timeout_generate e (generate_prompt (cfg_memory e) adv text end) of
        Inl exc \<Rightarrow> (adv, Inl exc)
      | Inr raw \<Rightarrow>
          let result = filter_output e raw
          in if rec
             then (adv\<lparr>actions := actions adv @ [text], results := results adv @ [result]\<rparr>,
                   Inr result)
             else (adv, Inr result))"

subsection \<open>Sending\<close>

text \<open>
  The body of the \<open>try\<close> statement of \<open>_try_send\<close>: what it does in each mode, and the
  exception it raises if any. An item assignment \<^verbatim>\<open>xs[i] = v\<close> raises \<open>IndexError\<close>
  when \<open>i\<close> is not below the length (\<open>edit_index\<close> is never negative). A mode other
  than the five tested does nothing.
\<close>

definition try_send_body :: "env \<Rightarrow> app \<Rightarrow> string \<Rightarrow> app \<times> py_exception option" where
  "try_send_body e st text =
     (let adv = adventure st in
      if mode st = [] then
        (case generate e adv text True None of
           (adv', Inl exc) \<Rightarrow> (st\<lparr>adventure := adv'\<rparr>, Some exc)
         | (adv', Inr _) \<Rightarrow> (st\<lparr>adventure := adv'\<rparr>, None))
      else if mode st = ''c'' then (st\<lparr>adventure := adv\<lparr>context := text\<rparr>\<rparr>, None)
      else if mode st = ''a'' then
        (if edit_index st < length (actions adv)
         then (st\<lparr>adventure := adv\<lparr>actions := (actions adv)[edit_index st := text]\<rparr>\<rparr>, None)
         else (st, Some IndexError))
      else if mode st = ''r'' then
        (if edit_index st < length (results adv)
         then (st\<lparr>adventure := adv\<lparr>results := (results adv)[edit_index st := text]\<rparr>\<rparr>, None)
         else (st, Some IndexError))
      else if mode st = ''m'' then (st\<lparr>adventure := adv\<lparr>memory := text\<rparr>\<rparr>, None)
      else (st, None))"

text \<open>
  The local variable \<open>result\<close> of \<open>_try_send\<close> is \<open>Some v\<close> while it is bound to \<open>v\<close>
  and \<open>None\<close> while it is unbound; reading an unbound local variable raises
  \<open>UnboundLocalError\<close>.
\<close>

definition read_local :: "'a option \<Rightarrow> py_exception + 'a" where
  "read_local v = (case v of None \<Rightarrow> Inl UnboundLocalError | Some x \<Rightarrow> Inr x)"

text \<open>The texts of the two error popups; the line feed is character 10.\<close>

definition timeout_message :: string where
  "timeout_message =
     ''The AI took too long to respond.'' @ [CHR 0x0A] @ ''Please try something else.''"

definition error_message :: string where
  "error_message =
     ''An unexpected error occurred.'' @ [CHR 0x0A] @ ''Please try something else,''
     @ [CHR 0x0A] @ ''or adjust your settings.''"

text \<open>
  \<open>_try_send\<close>:
  \<^verbatim>\<open>
  result = None
  try: ...
  except FunctionTimedOut as result: (popup)
  except Exception as result: (popup)
  return result
  \<close>
  In Python 3 the target of \<^verbatim>\<open>except ... as target\<close> is deleted when the handler is
  left (the language reference, on the \<open>try\<close> statement: the clause is translated to
  the handler's body followed by \<^verbatim>\<open>finally: del target\<close>). So after either handler
  \<open>result\<close> is unbound, and \<^verbatim>\<open>return result\<close> raises \<open>UnboundLocalError\<close>. An exception
  that neither clause matches leaves the function as it is. The result is the state
  after the call, and the exception raised or the value returned.
\<close>

definition try_send ::
  "env \<Rightarrow> app \<Rightarrow> string \<Rightarrow> app \<times> (py_exception + py_exception option)" where
  "try_send e st text =
     (let result = Some None in
      case try_send_body e st text of
        (st', None) \<Rightarrow> (st', read_local result)
      | (st', Some exc) \<Rightarrow>
          if exc = FunctionTimedOut then
            (let result = Some (Some exc);
                 st' = st'\<lparr>popups := popups st' @ [timeout_message]\<rparr>;
                 result = None
             in (st', read_local result))
          else if is_Exception exc then
            (let result = Some (Some exc);
                 st' = st'\<lparr>popups := popups st' @ [error_message]\<rparr>;
                 result = None
             in (st', read_local result))
          else (st', Inl exc))"

text \<open>
  \<open>_on_send_thread\<close>, the body of a worker thread: filter the text, disable the input
  and the send button, call \<open>_try_send\<close>; when that returns, reset the mode, update the
  screen, autosave if there was no error, and enable the controls again. An exception
  of \<open>_try_send\<close> is not handled here: it ends the thread at that point. The result is
  the state after the thread, and the exception that ended it if any.
\<close>

definition on_send_thread :: "env \<Rightarrow> app \<Rightarrow> string \<Rightarrow> app \<times> py_exception option" where
  "on_send_thread e st text =
     (let text = filter_input e text;
          st = st\<lparr>input_disabled := True, button_send_disabled := True\<rparr>
      in case try_send e st text of
           (st, Inl exc) \<Rightarrow> (st, Some exc)
         | (st, Inr error) \<Rightarrow>
             let st = st\<lparr>mode := []\<rparr>;
                 st = on_update e st (error = None);
                 st = (if error = None then try_autosave e st else st)
             in (st\<lparr>input_disabled := False, button_send_disabled := False\<rparr>, None))"

text \<open>
  \<open>on_send(text)\<close>: \<^verbatim>\<open>text = text or self.ids.input.text\<close>, then a new thread with
  target \<open>_on_send_thread\<close> is stored under the key \<open>'send'\<close> and started. Nothing is
  tested before the thread is started, and a thread stored there before keeps running.
\<close>

definition on_send :: "app \<Rightarrow> string option \<Rightarrow> app" where
  "on_send st text =
     (let text = (case text of None \<Rightarrow> input_text st
                  | Some t \<Rightarrow> if t \<noteq> [] then t else input_text st)
      in st\<lparr>send_threads := send_threads st @ [text]\<rparr>)"

text \<open>
  One step of the scheduler: the worker started first runs \<open>_on_send_thread\<close> to its
  end. (Workers are run one after the other here; the source puts no lock between
  them.)
\<close>

definition run_send_thread :: "env \<Rightarrow> app \<Rightarrow> app" where
  "run_send_thread e st =
     (case send_threads st of
        [] \<Rightarrow> st
      | text # rest \<Rightarrow> fst (on_send_thread e (st\<lparr>send_threads := rest\<rparr>) text))"

subsection \<open>Selecting an entry\<close>

text \<open>
  \<^verbatim>\<open>re.match(r'([a-z])([0-9]+)?', ref)\<close> matches at the start of \<open>ref\<close>: one lower-case
  letter (group 1), then as many digits as follow (group 2, absent when there is
  none). There is no match when \<open>ref\<close> does not start with a lower-case letter.
\<close>

definition is_lower :: "char \<Rightarrow> bool" where
  "is_lower c = (CHR ''a'' \<le> c \<and> c \<le> CHR ''z'')"

definition is_digit :: "char \<Rightarrow> bool" where
  "is_digit c = (CHR ''0'' \<le> c \<and> c \<le> CHR ''9'')"

definition match_ref :: "string \<Rightarrow> (string \<times> string option) option" where
  "match_ref ref =
     (case ref of
        [] \<Rightarrow> None
      | c # cs \<Rightarrow>
          if is_lower c
          then Some ([c], if takeWhile is_digit cs = [] then None
                          else Some (takeWhile is_digit cs))
          else None)"

text \<open>
  \<open>int(s)\<close> for a string of decimal digits: its value, or \<open>ValueError\<close> when the string
  has more digits than the interpreter's limit (leading zeros count).
\<close>

definition int_of_digits :: "string \<Rightarrow> nat" where
  "int_of_digits s = foldl (\<lambda>n c. 10 * n + (of_char c - 48)) 0 s"

definition py_int :: "nat \<Rightarrow> string \<Rightarrow> py_exception + nat" where
  "py_int max_str_digits s =
     (if 0 < max_str_digits \<and> max_str_digits < length s then Inl ValueError
      else Inr (int_of_digits s))"

text \<open>\<open>n.bit_length()\<close>: the number of binary digits of \<open>n\<close>.\<close>

function bit_length :: "nat \<Rightarrow> nat" where
  "bit_length n = (if n = 0 then 0 else Suc (bit_length (n div 2)))"
  by pat_completeness auto
termination
  by (relation "measure id") auto

declare bit_length.simps [simp del]

text \<open>
  The float nearest to the integer \<open>n\<close>, as an integer: a float has 53 significant
  binary digits, so an integer of more digits is rounded to a multiple of
  \<open>2 ^ (bit_length n - 53)\<close>, to the nearer one, and to the one with the even quotient
  when both are as near.
\<close>

definition round_to_float :: "nat \<Rightarrow> nat" where
  "round_to_float n =
     (let b = bit_length n in
      if b \<le> 53 then n
      else let u = 2 ^ (b - 53); q = n div u; r = n mod u
           in if u div 2 < r \<or> (r = u div 2 \<and> odd q) then (q + 1) * u else q * u)"

text \<open>
  \<^verbatim>\<open>int(n / 2)\<close> for an integer \<open>n\<close> that is not negative. The quotient \<open>/\<close> of two
  integers is the float nearest to the exact quotient, and \<open>OverflowError\<close> when that
  float would be \<open>2 ^ 1024\<close> or more. Halving is exact on floats, so the quotient is
  half of the float nearest to \<open>n\<close>; \<open>int\<close> then drops the fraction, which is there
  only for an odd \<open>n\<close> below \<open>2 ^ 53\<close>.
\<close>

definition int_half :: "nat \<Rightarrow> py_exception + nat" where
  "int_half n =
     (let r = round_to_float n
      in if 2 ^ 1025 \<le> r then Inl OverflowError else Inr (r div 2))"

text \<open>\<^verbatim>\<open>int(int(s)/2)\<close> for a string of decimal digits.\<close>

definition int_int_half :: "nat \<Rightarrow> string \<Rightarrow> py_exception + nat" where
  "int_int_half max_str_digits s =
     (case py_int max_str_digits s of
        Inl exc \<Rightarrow> Inl exc
      | Inr n \<Rightarrow> int_half n)"

text \<open>
  \<open>on_entry_selected(_, ref)\<close>: the mode becomes group 1; when group 2 is there, the
  edit index becomes \<^verbatim>\<open>int(int(match.group(2))/2)\<close>; then the field selected is copied
  to the input, and the screen is updated. Without a match \<open>match.group\<close> raises
  \<open>AttributeError\<close>; the conversion of group 2 raises \<open>ValueError\<close> or \<open>OverflowError\<close>
  after the mode has been set; an index out of range raises \<open>IndexError\<close> after the
  mode and the edit index have been set. The result is the state after the call, and
  the exception raised if any.
\<close>

definition on_entry_selected :: "env \<Rightarrow> app \<Rightarrow> string \<Rightarrow> app \<times> py_exception option" where
  "on_entry_selected e st ref =
     (case match_ref ref of
        None \<Rightarrow> (st, Some AttributeError)
      | Some (group1, group2) \<Rightarrow>
          let st = st\<lparr>mode := group1\<rparr> in
          case (case group2 of
                  None \<Rightarrow> Inr st
                | Some ds \<Rightarrow>
                    (case int_int_half (int_max_str_digits e) ds of
                       Inl exc \<Rightarrow> Inl exc
                     | Inr i \<Rightarrow> Inr (st\<lparr>edit_index := i\<rparr>))) of
            Inl exc \<Rightarrow> (st, Some exc)
          | Inr st \<Rightarrow>
              let adv = adventure st
              in if mode st = ''c''
                 then (on_update e (st\<lparr>input_text := context adv\<rparr>) False, None)
                 else if mode st = ''a'' then
                   (if edit_index st < length (actions adv)
                    then (on_update e (st\<lparr>input_text := actions adv ! edit_index st\<rparr>) False,
                          None)
                    else (st, Some IndexError))
                 else if mode st = ''r'' then
                   (if edit_index st < length (results adv)
                    then (on_update e (st\<lparr>input_text := results adv ! edit_index st\<rparr>) False,
                          None)
                    else (st, Some IndexError))
                 else (on_update e st False, None))"

text \<open>
  The window as the specification words it: \<open>start\<close> and \<open>end\<close> are clamped into
  \<open>[0, len(story)]\<close>, and a start beyond the end gives the empty window.
\<close>

definition clamp_index :: "int \<Rightarrow> int \<Rightarrow> int" where
  "clamp_index n i = max 0 (min n i)"

definition windowed_prompt_spec :: "adventure \<Rightarrow> int \<Rightarrow> int \<Rightarrow> string list" where
  "windowed_prompt_spec adv start end =
     (let n = int (length (story adv)); s = clamp_index n start; e = clamp_index n end
      in (if context adv \<noteq> [] then [context adv] else []) @ [memory adv]
         @ (if e < s then [] else take (nat (e - s)) (drop (nat s) (story adv))))"

section \<open>Example values\<close>

text \<open>
  An adventure of two turns, an application playing it, and an environment around a
  given generator, with the default memory of 20 entries, no filters loaded and the
  default limit of 4300 digits.
\<close>

definition example_adventure :: adventure where
  "example_adventure =
     \<lparr>name = ''My Game!! 2'', context = ''A cave.'', memory = ''You are brave.'',
      actions = [''look'', ''go north''], results = [''It is dark.'', ''You see a door.'']\<rparr>"

definition example_env :: "(string \<Rightarrow> py_exception + string) \<Rightarrow> env" where
  "example_env gen =
     \<lparr>cfg_memory = 20, cfg_autosave = True, input_filters = [], output_filters = [],
      display_filter = concat, func_timeout_generate = gen, int_max_str_digits = 4300\<rparr>"

definition example_app :: app where
  "example_app =
     \<lparr>adventure = example_adventure, mode = [], edit_index = 0, input_text = ''open door'',
      input_disabled = False, button_send_disabled = False, title_text = [],
      output_text = [], send_threads = [], popups = [], savefiles = Map.empty\<rparr>"

section \<open>Properties of the interleaved view\<close>

lemma interleave_length:
  "length (concat (map (\<lambda>(a, r). [a, r]) (zip xs ys))) = 2 * min (length xs) (length ys)"
proof (induction xs arbitrary: ys)
  case Nil
  show ?case by simp
next
  case (Cons x xs)
  show ?case
  proof (cases ys)
    case Nil
    then show ?thesis by simp
  next
    case (Cons y ys')
    with Cons.IH [of ys'] show ?thesis by simp
  qed
qed

lemma interleave_nth:
  "i < length xs \<Longrightarrow> i < length ys \<Longrightarrow>
     concat (map (\<lambda>(a, r). [a, r]) (zip xs ys)) ! (2 * i) = xs ! i \<and>
     concat (map (\<lambda>(a, r). [a, r]) (zip xs ys)) ! (2 * i + 1) = ys ! i"
proof (induction xs arbitrary: ys i)
  case Nil
  then show ?case by simp
next
  case (Cons x xs)
  then obtain y ys' where ys: "ys = y # ys'"
    by (cases ys) auto
  show ?case
  proof (cases i)
    case 0
    with ys show ?thesis by simp
  next
    case (Suc j)
    with Cons.prems ys have "j < length xs" "j < length ys'"
      by simp_all
    from Cons.IH [OF this] Suc ys show ?thesis by simp
  qed
qed

lemma interleave_butlast:
  "length xs = Suc (length ys) \<Longrightarrow> zip xs ys = zip (butlast xs) ys"
proof (induction xs arbitrary: ys)
  case Nil
  then show ?case by simp
next
  case (Cons x xs)
  show ?case
  proof (cases ys)
    case Nil
    then show ?thesis by simp
  next
    case (Cons y ys')
    with Cons.prems have "length xs = Suc (length ys')"
      by simp
    then have "xs \<noteq> []" "zip xs ys' = zip (butlast xs) ys'"
      using Cons.IH [of ys'] by auto
    with Cons show ?thesis by simp
  qed
qed

text \<open>
  C3. When \<open>actions\<close> and \<open>results\<close> both have \<open>n\<close> entries, \<open>story\<close> has \<open>2n\<close>
  entries, entry \<open>2i\<close> is \<open>actions[i]\<close> and entry \<open>2i+1\<close> is \<open>results[i]\<close> for every
  \<open>i < n\<close>; \<open>full_story\<close> is the context in front of \<open>story\<close> when the context is not
  empty, and \<open>story\<close> itself otherwise.
\<close>

theorem story_interleaved:
  assumes "length (actions adv) = n" and "length (results adv) = n"
  shows "length (story adv) = 2 * n
    \<and> (\<forall>i<n. story adv ! (2 * i) = actions adv ! i \<and> story adv ! (2 * i + 1) = results adv ! i)
    \<and> full_story adv = (if context adv \<noteq> [] then [context adv] @ story adv else story adv)"
proof -
  have "length (story adv) = 2 * n"
    using assms by (simp add: story_def interleave_length)
  moreover have "\<forall>i<n. story adv ! (2 * i) = actions adv ! i
      \<and> story adv ! (2 * i + 1) = results adv ! i"
    using assms interleave_nth [of _ "actions adv" "results adv"] by (simp add: story_def)
  moreover have "full_story adv = (if context adv \<noteq> [] then [context adv] @ story adv else story adv)"
    by (simp add: full_story_def)
  ultimately show ?thesis
    by blast
qed

theorem story_interleaved_witness:
  "length (story \<lparr>name = ''n'', context = ''c'', memory = ''m'',
                   actions = [''a0'', ''a1''], results = [''r0'', ''r1'']\<rparr>) = 4
   \<and> story \<lparr>name = ''n'', context = ''c'', memory = ''m'',
             actions = [''a0'', ''a1''], results = [''r0'', ''r1'']\<rparr> ! 3 = ''r1''
   \<and> full_story \<lparr>name = ''n'', context = ''c'', memory = ''m'',
             actions = [''a0'', ''a1''], results = [''r0'', ''r1'']\<rparr>
       = ''c'' # story \<lparr>name = ''n'', context = ''c'', memory = ''m'',
             actions = [''a0'', ''a1''], results = [''r0'', ''r1'']\<rparr>"
proof -
  let ?adv = "\<lparr>name = ''n'', context = ''c'', memory = ''m'',
               actions = [''a0'', ''a1''], results = [''r0'', ''r1'']\<rparr>"
  have a: "length (actions ?adv) = 2" and r: "length (results ?adv) = 2"
    by simp_all
  note all = story_interleaved [OF a r]
  have "length (story ?adv) = 4"
    using all [THEN conjunct1] by simp
  moreover have "story ?adv ! 3 = ''r1''"
    using all [THEN conjunct2, THEN conjunct1, rule_format, of 1] by simp
  moreover have "full_story ?adv = ''c'' # story ?adv"
    using all [THEN conjunct2, THEN conjunct2] by simp
  ultimately show ?thesis
    by blast
qed

text \<open>
  C10. \<open>story\<close> is defined for every pair of lists, whatever their lengths, and has
  exactly \<open>2 * min(len(actions), len(results))\<close> entries; when there is one action more
  than there are results, the last action is left out of the view: the view is the one
  of the adventure without that action.
\<close>

theorem story_total:
  "length (story adv) = 2 * min (length (actions adv)) (length (results adv))
   \<and> (length (actions adv) = Suc (length (results adv)) \<longrightarrow>
        story adv = story (adv\<lparr>actions := butlast (actions adv)\<rparr>)
        \<and> length (story adv) = 2 * length (results adv))"
proof -
  have len: "length (story adv) = 2 * min (length (actions adv)) (length (results adv))"
    by (simp add: story_def interleave_length)
  moreover have "story adv = story (adv\<lparr>actions := butlast (actions adv)\<rparr>)"
    if "length (actions adv) = Suc (length (results adv))"
    using interleave_butlast [OF that] by (simp add: story_def)
  ultimately show ?thesis
    by auto
qed

theorem story_total_witness:
  "length (story \<lparr>name = ''n'', context = [], memory = [],
                   actions = [''a0'', ''a1''], results = [''r0'']\<rparr>) = 2
   \<and> story \<lparr>name = ''n'', context = [], memory = [],
             actions = [''a0'', ''a1''], results = [''r0'']\<rparr>
       = story \<lparr>name = ''n'', context = [], memory = [],
                 actions = [''a0''], results = [''r0'']\<rparr>"
proof -
  let ?adv = "\<lparr>name = ''n'', context = [], memory = [],
               actions = [''a0'', ''a1''], results = [''r0'']\<rparr>"
  have skew: "length (actions ?adv) = Suc (length (results ?adv))"
    by simp
  note all = story_total [of ?adv]
  have "length (story ?adv) = 2"
    using all [THEN conjunct1] by simp
  moreover have "story ?adv = story (?adv\<lparr>actions := butlast (actions ?adv)\<rparr>)"
    using all [THEN conjunct2, rule_format, OF skew, THEN conjunct1] .
  ultimately show ?thesis
    by simp
qed

section \<open>Properties of the generation window\<close>

lemma py_slice_clamped:
  "py_slice xs s e =
     (let n = int (length xs);
          s' = clamp_index n (if s < 0 then s + n else s);
          e' = clamp_index n (if e < 0 then e + n else e)
      in if e' < s' then [] else take (nat (e' - s')) (drop (nat s') xs))"
  by (auto simp: py_slice_def adjust_index_def clamp_index_def Let_def)

lemma py_slice_all: "py_slice xs 0 (int (length xs)) = xs"
  by (cases xs) (simp_all add: py_slice_def adjust_index_def Let_def)

lemma py_slice_last:
  "0 \<le> j \<Longrightarrow> j \<le> int (length xs) \<Longrightarrow>
     py_slice xs (int (length xs) - j) (int (length xs)) = drop (length xs - nat j) xs"
  by (auto simp: py_slice_def adjust_index_def Let_def nat_diff_distrib)

text \<open>
  C4. The entries that \<open>_generate\<close> hands to the generator. With a configured memory
  of 0 or less and \<open>end\<close> left at its default, they are the context (when not empty),
  the memory string and the whole story: the full story with the memory string put in
  after the optional context. With a configured memory \<open>m > 0\<close>, \<open>n\<close> actions, \<open>n\<close>
  results and \<open>end = 2n\<close>, they are the context (when not empty), the memory string
  and the last \<open>min(m, 2n)\<close> entries of the story.
\<close>

theorem generate_story_window:
  "(m \<le> 0 \<longrightarrow>
      generate_story m adv None
        = (if context adv \<noteq> [] then [context adv] else []) @ [memory adv] @ story adv
      \<and> generate_story m adv None
        = take (if context adv \<noteq> [] then 1 else 0) (full_story adv) @ [memory adv]
          @ drop (if context adv \<noteq> [] then 1 else 0) (full_story adv))
   \<and> (0 < m \<and> length (actions adv) = n \<and> length (results adv) = n \<longrightarrow>
      generate_story m adv (Some (2 * int n))
        = (if context adv \<noteq> [] then [context adv] else []) @ [memory adv]
          @ drop (2 * n - min (nat m) (2 * n)) (story adv)
      \<and> length (drop (2 * n - min (nat m) (2 * n)) (story adv)) = min (nat m) (2 * n))"
proof -
  have unbounded: "generate_story m adv None
        = (if context adv \<noteq> [] then [context adv] else []) @ [memory adv] @ story adv"
    if "m \<le> 0"
    using that by (simp add: generate_story_def get_ai_story_def py_slice_all)
  have bounded: "generate_story m adv (Some (2 * int n))
        = (if context adv \<noteq> [] then [context adv] else []) @ [memory adv]
          @ drop (2 * n - min (nat m) (2 * n)) (story adv)
      \<and> length (drop (2 * n - min (nat m) (2 * n)) (story adv)) = min (nat m) (2 * n)"
    if m: "0 < m" and a: "length (actions adv) = n" and r: "length (results adv) = n"
  proof -
    have len: "length (story adv) = 2 * n"
      using a r by (simp add: story_def interleave_length)
    have "py_slice (story adv) (int (length (story adv)) - min m (2 * int n))
            (int (length (story adv)))
          = drop (length (story adv) - nat (min m (2 * int n))) (story adv)"
      using m len by (intro py_slice_last) simp_all
    moreover have "nat (min m (2 * int n)) = min (nat m) (2 * n)"
      using m by auto
    ultimately show ?thesis
      using m len by (simp add: generate_story_def get_ai_story_def Let_def)
  qed
  from unbounded bounded show ?thesis
    by (simp add: full_story_def)
qed

theorem generate_story_window_witness:
  "generate_story 0 example_adventure None
     = [''A cave.'', ''You are brave.'', ''look'', ''It is dark.'', ''go north'', ''You see a door.'']
   \<and> generate_story 3 example_adventure (Some 4)
     = [''A cave.'', ''You are brave.'', ''It is dark.'', ''go north'', ''You see a door.'']
   \<and> generate_story 20 example_adventure (Some 4)
     = [''A cave.'', ''You are brave.'', ''look'', ''It is dark.'', ''go north'', ''You see a door.'']"
proof -
  have st: "story example_adventure = [''look'', ''It is dark.'', ''go north'', ''You see a door.'']"
    by (simp add: story_def example_adventure_def)
  have c: "context example_adventure = ''A cave.''" and mem: "memory example_adventure = ''You are brave.''"
    and a: "length (actions example_adventure) = 2" and r: "length (results example_adventure) = 2"
    by (simp_all add: example_adventure_def)
  have "generate_story 0 example_adventure None
      = (if context example_adventure \<noteq> [] then [context example_adventure] else [])
        @ [memory example_adventure] @ story example_adventure"
    using generate_story_window [of 0 example_adventure 2] by simp
  moreover have "generate_story 3 example_adventure (Some (2 * int 2))
      = (if context example_adventure \<noteq> [] then [context example_adventure] else [])
        @ [memory example_adventure] @ drop (2 * 2 - min (nat 3) (2 * 2)) (story example_adventure)"
    using generate_story_window [of 3 example_adventure 2] a r by simp
  moreover have "generate_story 20 example_adventure (Some (2 * int 2))
      = (if context example_adventure \<noteq> [] then [context example_adventure] else [])
        @ [memory example_adventure] @ drop (2 * 2 - min (nat 20) (2 * 2)) (story example_adventure)"
    using generate_story_window [of 20 example_adventure 2] a r by simp
  ultimately show ?thesis
    by (simp add: st c mem)
qed

text \<open>
  C5, as the code has it. \<open>get_ai_story(start, end)\<close> is the window of the
  specification once a negative bound has had the story length added to it: a bound
  that is not negative is clamped into \<open>[0, len(story)]\<close>, so that an end beyond the
  story selects up to the last entry, and a start beyond an end that is not negative
  gives the empty window (context and memory only); a negative bound counts back from
  the end of the story, as in any Python slice, and is clamped to 0 only when it is
  still negative after that. Nothing raises.
\<close>

theorem get_ai_story_window:
  "get_ai_story adv (Some s) (Some e) =
     windowed_prompt_spec adv (if s < 0 then s + int (length (story adv)) else s)
       (if e < 0 then e + int (length (story adv)) else e)
   \<and> (0 \<le> s \<and> 0 \<le> e \<longrightarrow> get_ai_story adv (Some s) (Some e) = windowed_prompt_spec adv s e)
   \<and> (0 \<le> e \<and> e < s \<longrightarrow>
        get_ai_story adv (Some s) (Some e)
          = (if context adv \<noteq> [] then [context adv] else []) @ [memory adv])
   \<and> get_ai_story adv None None = windowed_prompt_spec adv 0 (int (length (story adv)))"
proof -
  have gen: "get_ai_story adv (Some s) (Some e) =
     windowed_prompt_spec adv (if s < 0 then s + int (length (story adv)) else s)
       (if e < 0 then e + int (length (story adv)) else e)" for s e
    by (simp add: get_ai_story_def windowed_prompt_spec_def py_slice_clamped Let_def)
  have empty: "get_ai_story adv (Some s) (Some e)
          = (if context adv \<noteq> [] then [context adv] else []) @ [memory adv]"
    if "0 \<le> e" "e < s"
    using that by (simp add: gen windowed_prompt_spec_def clamp_index_def Let_def)
  have none: "get_ai_story adv None None = windowed_prompt_spec adv 0 (int (length (story adv)))"
    using gen [of 0 "int (length (story adv))"] by (simp add: get_ai_story_def)
  from gen [of s e] empty none show ?thesis
    by simp
qed

theorem get_ai_story_window_witness:
  "get_ai_story example_adventure (Some 1) (Some 9)
     = [''A cave.'', ''You are brave.'', ''It is dark.'', ''go north'', ''You see a door.'']
   \<and> get_ai_story example_adventure (Some 3) (Some 1) = [''A cave.'', ''You are brave.'']"
proof -
  have st: "story example_adventure = [''look'', ''It is dark.'', ''go north'', ''You see a door.'']"
    by (simp add: story_def example_adventure_def)
  have "get_ai_story example_adventure (Some 1) (Some 9) = windowed_prompt_spec example_adventure 1 9"
    using get_ai_story_window [of example_adventure 1 9, THEN conjunct2, THEN conjunct1]
    by simp
  moreover have "get_ai_story example_adventure (Some 3) (Some 1)
      = (if context example_adventure \<noteq> [] then [context example_adventure] else [])
        @ [memory example_adventure]"
    using get_ai_story_window [of example_adventure 3 1, THEN conjunct2, THEN conjunct2,
        THEN conjunct1]
    by simp
  ultimately show ?thesis
    by (simp add: windowed_prompt_spec_def clamp_index_def st Let_def)
      (simp add: example_adventure_def)
qed

text \<open>
  C5, as the specification states it, fails for a negative start: clamping would select
  from index 0, and the code selects the last entry only.
\<close>

theorem negative_start_not_clamped:
  "get_ai_story example_adventure (Some (- 1)) (Some 4)
     = [''A cave.'', ''You are brave.'', ''You see a door.'']
   \<and> windowed_prompt_spec example_adventure (- 1) 4
     = [''A cave.'', ''You are brave.'', ''look'', ''It is dark.'', ''go north'', ''You see a door.'']"
proof -
  have st: "story example_adventure = [''look'', ''It is dark.'', ''go north'', ''You see a door.'']"
    by (simp add: story_def example_adventure_def)
  show ?thesis
    by (simp add: get_ai_story_def windowed_prompt_spec_def py_slice_def adjust_index_def
        clamp_index_def st Let_def)
      (simp add: example_adventure_def)
qed

section \<open>Properties of the save name\<close>

lemma char_eq_code: "(c = d) = (of_char c = (of_char d :: nat))"
  by simp

lemma is_save_char_code:
  "is_save_char c =
     ((97 \<le> (of_char c :: nat) \<and> (of_char c :: nat) \<le> 122)
      \<or> (65 \<le> (of_char c :: nat) \<and> (of_char c :: nat) \<le> 90)
      \<or> (48 \<le> (of_char c :: nat) \<and> (of_char c :: nat) \<le> 57)
      \<or> (of_char c :: nat) = 95 \<or> (of_char c :: nat) = 45)"
  unfolding is_save_char_def less_eq_char_def char_eq_code [of c] by simp

lemma save_char_not_space: "is_save_char c \<Longrightarrow> \<not> py_isspace c"
  unfolding is_save_char_code py_isspace_def by auto

lemma is_alnum_code:
  "is_alnum c =
     ((97 \<le> (of_char c :: nat) \<and> (of_char c :: nat) \<le> 122)
      \<or> (65 \<le> (of_char c :: nat) \<and> (of_char c :: nat) \<le> 90)
      \<or> (48 \<le> (of_char c :: nat) \<and> (of_char c :: nat) \<le> 57))"
  unfolding is_alnum_def list.set insert_iff empty_iff char_eq_code [of c]
  by simp arith

lemma is_save_char_alnum:
  "is_save_char c = (is_alnum c \<or> c = CHR ''_'' \<or> c = CHR ''-'')"
  unfolding is_save_char_code is_alnum_code char_eq_code [of c] by simp

lemma collapse_runs_True:
  "collapse_runs True cs = collapse_runs False (dropWhile py_isspace cs)"
  by (induction cs) simp_all

lemma sub_whitespace_collapse: "sub_whitespace s = collapse_runs False s"
  by (induction s rule: sub_whitespace.induct) (simp_all add: collapse_runs_True)

lemma sub_whitespace_no_space: "\<forall>c\<in>set s. \<not> py_isspace c \<Longrightarrow> sub_whitespace s = s"
  by (induction s) simp_all

lemma strip_no_space:
  assumes "\<forall>c\<in>set s. \<not> py_isspace c"
  shows "strip s = s"
proof -
  from assms have "dropWhile py_isspace s = s"
    by (cases s) simp_all
  moreover from assms have "dropWhile py_isspace (rev s) = rev s"
    by (cases "rev s") (simp, metis dropWhile.simps(2) list.set_intros(1) set_rev)
  ultimately show ?thesis
    by (simp add: strip_def)
qed

lemma get_save_name_fixed:
  assumes "\<forall>c\<in>set s. is_save_char c"
  shows "get_save_name s = s"
proof -
  from assms have "\<forall>c\<in>set s. \<not> py_isspace c"
    by (blast dest: save_char_not_space)
  then have "sub_whitespace (strip s) = s"
    by (simp add: strip_no_space sub_whitespace_no_space)
  with assms show ?thesis
    by (simp add: get_save_name_def)
qed

lemma get_save_name_chars: "\<forall>c\<in>set (get_save_name s). is_save_char c"
  by (simp add: get_save_name_def)

lemma get_save_name_example: "get_save_name ''My Game!! 2'' = ''My_Game_2''"
  by (simp add: get_save_name_def strip_def py_isspace_def is_save_char_def)

text \<open>
  C7. \<open>get_save_name\<close> strips the white space at both ends, collapses every run of
  white space that is left to one separator and then removes every character that is
  not a letter, a digit, \<open>_\<close> or \<open>-\<close> (it is \<open>save_name_spec\<close>); applying it twice gives
  the same as applying it once; and the save name of \<open>My Game!! 2\<close> is \<open>My_Game_2\<close>.
\<close>

theorem save_name:
  "get_save_name x = save_name_spec x
   \<and> get_save_name (get_save_name x) = get_save_name x
   \<and> get_save_name ''My Game!! 2'' = ''My_Game_2''"
proof -
  have "get_save_name x = save_name_spec x"
  proof -
    have "is_save_char = (\<lambda>c. is_alnum c \<or> c = CHR ''_'' \<or> c = CHR ''-'')"
      by (rule ext) (simp add: is_save_char_alnum)
    then show ?thesis
      by (simp add: get_save_name_def save_name_spec_def sub_whitespace_collapse)
  qed
  moreover have "get_save_name (get_save_name x) = get_save_name x"
    by (rule get_save_name_fixed) (rule get_save_name_chars)
  ultimately show ?thesis
    using get_save_name_example by blast
qed

section \<open>Properties of saving and loading\<close>

lemma from_dict_to_dict: "from_dict adv' (to_dict adv) = (adv, None)"
  by (cases adv, cases adv') (simp add: from_dict_def to_dict_def get_str_def get_list_def)

text \<open>
  C8. \<open>from_dict\<close> applied to the dictionary of \<open>to_dict\<close> replaces all five fields,
  whatever the adventure held before, so the adventure read is the adventure written.
  Saving and then loading gives back the adventure saved, also when the adventure has
  been replaced in between by any other whose name has the same save name.
\<close>

theorem save_load_round_trip:
  "from_dict adv' (to_dict adv) = (adv, None)
   \<and> load_adventure (save_adventure st) = (save_adventure st, None)
   \<and> adventure (save_adventure st) = adventure st
   \<and> (get_save_name (name adv') = get_save_name (name (adventure st)) \<longrightarrow>
        load_adventure ((save_adventure st)\<lparr>adventure := adv'\<rparr>)
          = ((save_adventure st)\<lparr>adventure := adventure st\<rparr>, None))"
proof -
  have same: "adventure (save_adventure st) = adventure st"
    by (simp add: save_adventure_def Let_def)
  have other: "load_adventure ((save_adventure st)\<lparr>adventure := adv'\<rparr>)
          = ((save_adventure st)\<lparr>adventure := adventure st\<rparr>, None)"
    if "get_save_name (name adv') = get_save_name (name (adventure st))" for adv'
    using that by (simp add: load_adventure_def save_adventure_def Let_def from_dict_to_dict)
  have "load_adventure (save_adventure st) = (save_adventure st, None)"
    using other [of "adventure st"] same by (simp add: save_adventure_def Let_def)
  with same other [of adv'] from_dict_to_dict [of adv' adv] show ?thesis
    by blast
qed

theorem save_load_round_trip_witness:
  "adventure (fst (load_adventure ((save_adventure example_app)
      \<lparr>adventure := \<lparr>name = '' My  Game 2 '', context = [], memory = [], actions = [],
                      results = []\<rparr>\<rparr>))) = example_adventure"
proof -
  let ?adv = "\<lparr>name = '' My  Game 2 '', context = [], memory = [], actions = [], results = []\<rparr>"
  have "get_save_name (name ?adv) = get_save_name (name (adventure example_app))"
    by (simp add: get_save_name_def strip_def py_isspace_def is_save_char_def
        example_app_def example_adventure_def)
  then have "load_adventure ((save_adventure example_app)\<lparr>adventure := ?adv\<rparr>)
          = ((save_adventure example_app)\<lparr>adventure := adventure example_app\<rparr>, None)"
    using save_load_round_trip [of ?adv _ example_app] by blast
  then show ?thesis
    by (simp add: example_app_def)
qed

section \<open>Properties of sending\<close>

lemma generate_failure:
  "func_timeout_generate e (generate_prompt (cfg_memory e) adv text end) = Inl exc \<Longrightarrow>
     generate e adv text rec end = (adv, Inl exc)"
  by (simp add: generate_def)

lemma try_send_body_failure:
  assumes "mode st = []"
    and "func_timeout_generate e (generate_prompt (cfg_memory e) (adventure st) text None) = Inl exc"
  shows "try_send_body e st text = (st, Some exc)"
  using assms by (simp add: try_send_body_def generate_failure)

lemma try_send_failure_adventure:
  assumes "mode st = []"
    and "func_timeout_generate e (generate_prompt (cfg_memory e) (adventure st) text None) = Inl exc"
  shows "adventure (fst (try_send e st text)) = adventure st"
  using try_send_body_failure [OF assms] by (simp add: try_send_def Let_def)

lemma on_send_thread_adventure:
  "adventure (fst (try_send e (st\<lparr>input_disabled := True, button_send_disabled := True\<rparr>)
       (filter_input e text))) = adv \<Longrightarrow>
   adventure (fst (on_send_thread e st text)) = adv"
  by (auto simp: on_send_thread_def Let_def on_update_def try_autosave_def save_adventure_def
      split: prod.splits sum.splits)

text \<open>
  C1. In the generation mode (the empty mode), when the generator call on the prompt
  of the filtered text times out or raises any exception, the adventure after
  \<open>_try_send\<close>, and after the whole worker \<open>_on_send_thread\<close>, is the adventure before:
  no action and no result is appended, and nothing else changes.
\<close>

theorem failed_generation_keeps_story:
  assumes "mode st = []"
    and "func_timeout_generate e
           (generate_prompt (cfg_memory e) (adventure st) (filter_input e text) None) = Inl exc"
  shows "adventure (fst (try_send e st (filter_input e text))) = adventure st
     \<and> adventure (fst (on_send_thread e st text)) = adventure st"
proof -
  let ?st = "st\<lparr>input_disabled := True, button_send_disabled := True\<rparr>"
  have "adventure (fst (try_send e ?st (filter_input e text))) = adventure ?st"
    using assms by (intro try_send_failure_adventure) simp_all
  then have "adventure (fst (on_send_thread e st text)) = adventure st"
    by (intro on_send_thread_adventure) simp
  with try_send_failure_adventure [OF assms] show ?thesis
    by simp
qed

theorem failed_generation_keeps_story_witness:
  "adventure (fst (try_send (example_env (\<lambda>_. Inl FunctionTimedOut)) example_app ''open door''))
     = example_adventure
   \<and> adventure (fst (on_send_thread (example_env (\<lambda>_. Inl FunctionTimedOut)) example_app
         ''open door'')) = example_adventure
   \<and> actions (adventure (fst (on_send_thread
         (example_env (\<lambda>_. Inl (OtherException ''RuntimeError''))) example_app ''open door'')))
     = [''look'', ''go north'']"
proof -
  let ?e = "example_env (\<lambda>_. Inl FunctionTimedOut)"
  let ?e' = "example_env (\<lambda>_. Inl (OtherException ''RuntimeError''))"
  have m: "mode example_app = []"
    by (simp add: example_app_def)
  have f: "filter_input ?e ''open door'' = ''open door''"
    "filter_input ?e' ''open door'' = ''open door''"
    by (simp_all add: filter_input_def example_env_def)
  have g: "func_timeout_generate ?e (generate_prompt (cfg_memory ?e) (adventure example_app)
             (filter_input ?e ''open door'') None) = Inl FunctionTimedOut"
    by (simp add: example_env_def)
  have g': "func_timeout_generate ?e' (generate_prompt (cfg_memory ?e') (adventure example_app)
             (filter_input ?e' ''open door'') None) = Inl (OtherException ''RuntimeError'')"
    by (simp add: example_env_def)
  from failed_generation_keeps_story [OF m g] failed_generation_keeps_story [OF m g'] f
  show ?thesis
    by (simp add: example_app_def example_adventure_def)
qed

text \<open>
  C2, on the code. When the generator times out, \<open>_try_send\<close> opens the popup of the
  timeout and then raises \<open>UnboundLocalError\<close> at \<^verbatim>\<open>return result\<close>; when the generator
  raises another exception, it opens the popup of the unexpected error and raises
  \<open>UnboundLocalError\<close> as well: nothing is returned, and the two cases end in the same
  exception. The exception ends the worker \<open>_on_send_thread\<close>, which leaves the input
  and the send button disabled.
\<close>

theorem try_send_failure_raises:
  "try_send (example_env (\<lambda>_. Inl FunctionTimedOut)) example_app ''open door''
     = (example_app\<lparr>popups := [timeout_message]\<rparr>, Inl UnboundLocalError)
   \<and> try_send (example_env (\<lambda>_. Inl (OtherException ''RuntimeError''))) example_app ''open door''
     = (example_app\<lparr>popups := [error_message]\<rparr>, Inl UnboundLocalError)
   \<and> on_send_thread (example_env (\<lambda>_. Inl FunctionTimedOut)) example_app ''open door''
     = (example_app\<lparr>input_disabled := True, button_send_disabled := True,
                     popups := [timeout_message]\<rparr>, Some UnboundLocalError)"
  by (simp add: try_send_def try_send_body_def generate_def on_send_thread_def filter_input_def
      read_local_def is_Exception_def example_env_def example_app_def Let_def)

text \<open>
  C9, as the code has it. \<open>on_send\<close> starts a new worker at every call, whatever
  workers are already started, and does not touch the adventure; it has no error to
  answer with.
\<close>

theorem on_send_always_starts:
  "send_threads (on_send st text)
     = send_threads st @ [case text of None \<Rightarrow> input_text st
                          | Some t \<Rightarrow> if t \<noteq> [] then t else input_text st]
   \<and> adventure (on_send st text) = adventure st"
  by (simp add: on_send_def Let_def)

text \<open>
  C9, as the specification states it, fails: a second \<open>on_send\<close> before the first
  worker has run is accepted, two generations are in flight, and both turns are
  recorded when the two workers run.
\<close>

theorem two_generations_in_flight:
  "send_threads (on_send (on_send example_app (Some ''look'')) (Some ''run'')) = [''look'', ''run'']
   \<and> adventure (run_send_thread (example_env (\<lambda>_. Inr ''ok''))
        (run_send_thread (example_env (\<lambda>_. Inr ''ok''))
          (on_send (on_send example_app (Some ''look'')) (Some ''run''))))
      = example_adventure\<lparr>actions := actions example_adventure @ [''look'', ''run''],
                           results := results example_adventure @ [''ok'', ''ok'']\<rparr>"
  by (simp add: on_send_def run_send_thread_def on_send_thread_def try_send_def
      try_send_body_def generate_def filter_input_def filter_output_def read_local_def
      on_update_def try_autosave_def save_adventure_def example_env_def example_app_def
      example_adventure_def Let_def)

section \<open>Properties of selecting an entry\<close>

lemma bit_length_le: "(bit_length n \<le> k) = (n < 2 ^ k)"
proof (induction n arbitrary: k rule: bit_length.induct)
  case (1 n)
  show ?case
  proof (cases "n = 0")
    case True
    then show ?thesis by (simp add: bit_length.simps)
  next
    case False
    show ?thesis
    proof (cases k)
      case 0
      with False show ?thesis by (simp add: bit_length.simps [of n])
    next
      case (Suc j)
      have "(bit_length n \<le> Suc j) = (bit_length (n div 2) \<le> j)"
        using False by (simp add: bit_length.simps [of n])
      also have "\<dots> = (n div 2 < 2 ^ j)"
        using "1.IH" [OF False] .
      also have "\<dots> = (n < 2 ^ Suc j)"
        by auto
      finally show ?thesis using Suc by simp
    qed
  qed
qed

lemma round_to_float_small: "n < 2 ^ 53 \<Longrightarrow> round_to_float n = n"
  using bit_length_le [of n 53] by (simp add: round_to_float_def Let_def)

lemma int_half_small:
  assumes "n < 2 ^ 53"
  shows "int_half n = Inr (n div 2)"
proof -
  have "(2::nat) ^ 53 \<le> 2 ^ 1025"
    by (rule power_increasing) simp_all
  with assms have "\<not> 2 ^ 1025 \<le> n"
    by linarith
  with assms show ?thesis
    by (simp only: int_half_def round_to_float_small Let_def if_False)
qed

lemma int_int_half_small:
  assumes "\<not> (0 < lim \<and> lim < length ds)" and "int_of_digits ds < 2 ^ 53"
  shows "int_int_half lim ds = Inr (int_of_digits ds div 2)"
  using assms by (simp add: int_int_half_def py_int_def int_half_small del: power_numeral)

lemma int_half_rounds: "int_half 18014398509481986 = Inr 9007199254740992"
  by (simp add: int_half_def round_to_float_def bit_length.simps Let_def)

lemma bit_length_lower: "0 < n \<Longrightarrow> 2 ^ (bit_length n - 1) \<le> n"
proof -
  assume "0 < n"
  then have "0 < bit_length n"
    by (simp add: bit_length.simps [of n])
  then have "\<not> bit_length n \<le> bit_length n - 1"
    by simp
  then show ?thesis
    unfolding bit_length_le by simp
qed

lemma int_half_overflow:
  assumes "2 ^ 1025 \<le> n"
  shows "int_half n = Inl OverflowError"
proof -
  define b where "b = bit_length n"
  define u :: nat where "u = 2 ^ (b - 53)"
  have "\<not> n < 2 ^ 1025"
    using assms by simp
  then have b: "1025 < b"
    unfolding b_def using bit_length_le [of n 1025] by simp
  have "0 < n"
    using assms by (metis gr0I power_not_zero zero_neq_numeral le_zero_eq)
  then have low: "2 ^ (b - 1) \<le> n"
    unfolding b_def by (rule bit_length_lower)
  have split: "(2::nat) ^ (b - 1) = 2 ^ 52 * u"
    unfolding u_def using b by (simp add: power_add [symmetric] del: power_numeral)
  have "2 ^ 52 * u div u \<le> n div u"
    using low unfolding split by (rule div_le_mono)
  then have q: "2 ^ 52 \<le> n div u"
    by (simp add: u_def del: power_numeral)
  have "(2::nat) ^ 1025 \<le> 2 ^ (b - 1)"
    using b by (intro power_increasing) simp_all
  also have "\<dots> \<le> (n div u) * u"
    unfolding split using q by (rule mult_le_mono1)
  finally have r1: "2 ^ 1025 \<le> (n div u) * u" .
  then have r2: "2 ^ 1025 \<le> (n div u + 1) * u"
    by (simp add: add_mult_distrib del: power_numeral)
  have "round_to_float n = (n div u) * u \<or> round_to_float n = (n div u + 1) * u"
    using b by (simp add: round_to_float_def Let_def b_def [symmetric] u_def [symmetric]
        del: power_numeral)
  with r1 r2 have "2 ^ 1025 \<le> round_to_float n"
    by auto
  then show ?thesis
    by (simp add: int_half_def Let_def del: power_numeral)
qed

lemma match_ref_a4: "match_ref ''a4'' = Some (''a'', Some ''4'')"
  and match_ref_r5: "match_ref ''r5'' = Some (''r'', Some ''5'')"
  and match_ref_c: "match_ref ''c'' = Some (''c'', None)"
  and match_ref_x: "match_ref ''x'' = Some (''x'', None)"
  by (simp_all add: match_ref_def is_lower_def is_digit_def less_eq_char_def)

lemma match_ref_letter: "is_lower k \<Longrightarrow> match_ref [k] = Some ([k], None)"
  by (simp add: match_ref_def)

lemma match_ref_digits:
  assumes "is_lower c" and "ds \<noteq> []" and "\<forall>d\<in>set ds. is_digit d"
  shows "match_ref (c # ds) = Some ([c], Some ds)"
proof -
  from assms(3) have tw: "takeWhile is_digit ds = ds"
    by (simp add: takeWhile_eq_all_conv)
  show ?thesis
    using assms(1,2) by (simp add: match_ref_def tw)
qed

lemma on_update_mode: "mode (on_update e st b) = mode st"
  and on_update_edit_index: "edit_index (on_update e st b) = edit_index st"
  by (simp_all add: on_update_def Let_def)

lemma int_int_half_4: "int_int_half lim ''4'' = Inr 2"
  and int_int_half_5: "int_int_half lim ''5'' = Inr 2"
proof -
  have "int_half 4 = Inr 2" "int_half 5 = Inr 2"
    using int_half_small [of 4] int_half_small [of 5] by simp_all
  then show "int_int_half lim ''4'' = Inr 2" "int_int_half lim ''5'' = Inr 2"
    by (auto simp: int_int_half_def py_int_def int_of_digits_def)
qed

lemma on_entry_selected_digits:
  assumes "is_lower c" and "ds \<noteq> []" and "\<forall>d\<in>set ds. is_digit d"
    and "int_max_str_digits e = 0 \<or> length ds \<le> int_max_str_digits e"
    and "int_of_digits ds < 2 ^ 53"
  shows "mode (fst (on_entry_selected e st (c # ds))) = [c]
    \<and> edit_index (fst (on_entry_selected e st (c # ds))) = int_of_digits ds div 2"
proof -
  have "int_int_half (int_max_str_digits e) ds = Inr (int_of_digits ds div 2)"
    using assms(4,5) by (intro int_int_half_small) auto
  then show ?thesis
    by (simp add: on_entry_selected_def match_ref_digits [OF assms(1-3)] Let_def
        on_update_mode on_update_edit_index)
qed

lemma on_entry_selected_unknown:
  assumes "is_lower k" and "k \<noteq> CHR ''c''" and "k \<noteq> CHR ''a''" and "k \<noteq> CHR ''r''"
  shows "on_entry_selected e st [k] = (on_update e (st\<lparr>mode := [k]\<rparr>) False, None)"
  using assms by (simp add: on_entry_selected_def match_ref_letter Let_def)

lemma on_entry_selected_unknown_digits:
  assumes "is_lower k" and "k \<noteq> CHR ''c''" and "k \<noteq> CHR ''a''" and "k \<noteq> CHR ''r''"
    and "ds \<noteq> []" and "\<forall>d\<in>set ds. is_digit d"
    and "int_max_str_digits e = 0 \<or> length ds \<le> int_max_str_digits e"
    and "int_of_digits ds < 2 ^ 53"
  shows "on_entry_selected e st (k # ds)
    = (on_update e (st\<lparr>mode := [k], edit_index := int_of_digits ds div 2\<rparr>) False, None)"
proof -
  have "int_int_half (int_max_str_digits e) ds = Inr (int_of_digits ds div 2)"
    using assms(7,8) by (intro int_int_half_small) auto
  then show ?thesis
    using assms(2-4)
    by (simp add: on_entry_selected_def match_ref_digits [OF assms(1,5,6)] Let_def)
qed

lemma try_send_unknown:
  assumes "k \<noteq> CHR ''c''" and "k \<noteq> CHR ''a''" and "k \<noteq> CHR ''r''" and "k \<noteq> CHR ''m''"
  shows "try_send e (st\<lparr>mode := [k]\<rparr>) text = (st\<lparr>mode := [k]\<rparr>, Inr None)"
  using assms by (simp add: try_send_def try_send_body_def read_local_def Let_def)

text \<open>
  C6, as the code has it. Selecting \<open>a4\<close> sets the mode \<open>a\<close> and the edit index 2,
  selecting \<open>r5\<close> the mode \<open>r\<close> and the edit index 2, selecting \<open>c\<close> the mode \<open>c\<close> and
  leaves the edit index as it was. A lower-case letter followed by an index below
  \<open>2 ^ 53\<close>, written in no more digits than the interpreter's limit, sets the mode to
  the letter and the edit index to the index divided by 2. A tag whose letter is none
  of \<open>c\<close>, \<open>a\<close>, \<open>r\<close>, such as \<open>x\<close>, alone or followed by such an index, is accepted:
  the mode becomes the letter, no exception is raised, and (for a letter that is not
  \<open>m\<close> either) sending in that mode does nothing and reports no error.
\<close>

theorem selection_resolution:
  "mode (fst (on_entry_selected e st ''a4'')) = ''a''
   \<and> edit_index (fst (on_entry_selected e st ''a4'')) = 2
   \<and> mode (fst (on_entry_selected e st ''r5'')) = ''r''
   \<and> edit_index (fst (on_entry_selected e st ''r5'')) = 2
   \<and> mode (fst (on_entry_selected e st ''c'')) = ''c''
   \<and> edit_index (fst (on_entry_selected e st ''c'')) = edit_index st
   \<and> snd (on_entry_selected e st ''c'') = None
   \<and> (is_lower c \<and> ds \<noteq> [] \<and> (\<forall>d\<in>set ds. is_digit d)
        \<and> (int_max_str_digits e = 0 \<or> length ds \<le> int_max_str_digits e)
        \<and> int_of_digits ds < 2 ^ 53 \<longrightarrow>
        mode (fst (on_entry_selected e st (c # ds))) = [c]
        \<and> edit_index (fst (on_entry_selected e st (c # ds))) = int_of_digits ds div 2)
   \<and> (is_lower k \<and> k \<noteq> CHR ''c'' \<and> k \<noteq> CHR ''a'' \<and> k \<noteq> CHR ''r'' \<longrightarrow>
        on_entry_selected e st [k] = (on_update e (st\<lparr>mode := [k]\<rparr>) False, None))
   \<and> (is_lower k \<and> k \<noteq> CHR ''c'' \<and> k \<noteq> CHR ''a'' \<and> k \<noteq> CHR ''r''
        \<and> ds \<noteq> [] \<and> (\<forall>d\<in>set ds. is_digit d)
        \<and> (int_max_str_digits e = 0 \<or> length ds \<le> int_max_str_digits e)
        \<and> int_of_digits ds < 2 ^ 53 \<longrightarrow>
        on_entry_selected e st (k # ds)
          = (on_update e (st\<lparr>mode := [k], edit_index := int_of_digits ds div 2\<rparr>) False, None))
   \<and> (k \<noteq> CHR ''c'' \<and> k \<noteq> CHR ''a'' \<and> k \<noteq> CHR ''r'' \<and> k \<noteq> CHR ''m'' \<longrightarrow>
        try_send e (st\<lparr>mode := [k]\<rparr>) text = (st\<lparr>mode := [k]\<rparr>, Inr None))
   \<and> on_entry_selected e st ''x'' = (on_update e (st\<lparr>mode := ''x''\<rparr>) False, None)
   \<and> try_send e (st\<lparr>mode := ''x''\<rparr>) text = (st\<lparr>mode := ''x''\<rparr>, Inr None)"
proof -
  have a4: "mode (fst (on_entry_selected e st ''a4'')) = ''a''
      \<and> edit_index (fst (on_entry_selected e st ''a4'')) = 2"
    by (simp add: on_entry_selected_def match_ref_a4 Let_def int_int_half_4
        on_update_mode on_update_edit_index)
  have r5: "mode (fst (on_entry_selected e st ''r5'')) = ''r''
      \<and> edit_index (fst (on_entry_selected e st ''r5'')) = 2"
    by (simp add: on_entry_selected_def match_ref_r5 Let_def int_int_half_5
        on_update_mode on_update_edit_index)
  have c: "mode (fst (on_entry_selected e st ''c'')) = ''c''
      \<and> edit_index (fst (on_entry_selected e st ''c'')) = edit_index st
      \<and> snd (on_entry_selected e st ''c'') = None"
    by (simp add: on_entry_selected_def match_ref_c Let_def
        on_update_mode on_update_edit_index)
  have x: "on_entry_selected e st ''x'' = (on_update e (st\<lparr>mode := ''x''\<rparr>) False, None)"
    by (simp add: on_entry_selected_def match_ref_x Let_def)
  have send: "try_send e (st\<lparr>mode := ''x''\<rparr>) text = (st\<lparr>mode := ''x''\<rparr>, Inr None)"
    by (simp add: try_send_def try_send_body_def read_local_def Let_def)
  from a4 r5 c x send on_entry_selected_digits [of c ds e st]
    on_entry_selected_unknown [of k e st] on_entry_selected_unknown_digits [of k ds e st]
    try_send_unknown [of k e st "text"]
  show ?thesis
    by blast
qed

theorem selection_resolution_witness:
  "mode (fst (on_entry_selected (example_env (\<lambda>_. Inr ''ok'')) example_app ''a12'')) = ''a''
   \<and> edit_index (fst (on_entry_selected (example_env (\<lambda>_. Inr ''ok'')) example_app ''a12'')) = 6
   \<and> snd (on_entry_selected (example_env (\<lambda>_. Inr ''ok'')) example_app ''a12'')
      = Some IndexError
   \<and> snd (on_entry_selected (example_env (\<lambda>_. Inr ''ok'')) example_app ''x'') = None
   \<and> mode (fst (on_entry_selected (example_env (\<lambda>_. Inr ''ok'')) example_app ''x12'')) = ''x''
   \<and> edit_index (fst (on_entry_selected (example_env (\<lambda>_. Inr ''ok'')) example_app ''x12'')) = 6
   \<and> snd (on_entry_selected (example_env (\<lambda>_. Inr ''ok'')) example_app ''x12'') = None
   \<and> adventure (fst (try_send (example_env (\<lambda>_. Inr ''ok'')) (example_app\<lparr>mode := ''x''\<rparr>)
        ''go'')) = example_adventure"
proof -
  let ?e = "example_env (\<lambda>_. Inr ''ok'')"
  note all = selection_resolution [of ?e example_app "CHR ''a''" "''12''" "CHR ''x''" "''go''"]
  have low: "is_lower CHR ''a''" "is_lower CHR ''x''"
    by (simp_all add: is_lower_def less_eq_char_def)
  have ds: "''12'' \<noteq> []" "\<forall>d\<in>set ''12''. is_digit d"
    by (simp_all add: is_digit_def less_eq_char_def)
  have lim: "int_max_str_digits ?e = 0 \<or> length ''12'' \<le> int_max_str_digits ?e"
    by (simp add: example_env_def)
  have val: "int_of_digits ''12'' = 12"
    by (simp add: int_of_digits_def)
  then have small: "int_of_digits ''12'' < 2 ^ 53"
    by simp
  have x: "CHR ''x'' \<noteq> CHR ''c''" "CHR ''x'' \<noteq> CHR ''a''" "CHR ''x'' \<noteq> CHR ''r''"
    "CHR ''x'' \<noteq> CHR ''m''"
    by simp_all
  have a12: "mode (fst (on_entry_selected ?e example_app ''a12'')) = ''a''
      \<and> edit_index (fst (on_entry_selected ?e example_app ''a12'')) = int_of_digits ''12'' div 2"
    using all low(1) ds lim small by blast
  have x1: "on_entry_selected ?e example_app ''x''
      = (on_update ?e (example_app\<lparr>mode := ''x''\<rparr>) False, None)"
    using all low(2) x by blast
  have x12: "on_entry_selected ?e example_app ''x12''
      = (on_update ?e (example_app\<lparr>mode := ''x'', edit_index := int_of_digits ''12'' div 2\<rparr>)
           False, None)"
    using all low(2) x ds lim small by blast
  have send: "try_send ?e (example_app\<lparr>mode := ''x''\<rparr>) ''go''
      = (example_app\<lparr>mode := ''x''\<rparr>, Inr None)"
    using all x by blast
  have "int_half 12 = Inr 6"
    using int_half_small [of 12] by simp
  then have "int_int_half 4300 ''12'' = Inr 6"
    by (simp add: int_int_half_def py_int_def val)
  moreover have "match_ref ''a12'' = Some (''a'', Some ''12'')"
    by (simp add: match_ref_def is_lower_def is_digit_def less_eq_char_def)
  ultimately have err: "snd (on_entry_selected ?e example_app ''a12'') = Some IndexError"
    by (simp add: on_entry_selected_def Let_def example_env_def example_app_def
        example_adventure_def)
  from a12 x1 x12 send err val show ?thesis
    by (simp add: on_update_mode on_update_edit_index example_app_def)
qed

text \<open>
  C6, as the specification states it, fails for the tag \<open>x\<close>: selecting it raises
  nothing and sets the mode \<open>x\<close>.
\<close>

theorem unknown_kind_accepted:
  "snd (on_entry_selected (example_env (\<lambda>_. Inr ''ok'')) example_app ''x'') = None
   \<and> mode (fst (on_entry_selected (example_env (\<lambda>_. Inr ''ok'')) example_app ''x'')) = ''x''"
  by (simp add: on_entry_selected_def match_ref_x Let_def on_update_mode)

text \<open>
  Beyond \<open>2 ^ 53\<close> the edit index is the rounded quotient, not the exact one: the tag
  \<open>x18014398509481986\<close> gives 9007199254740992, one less than the half of the index.
\<close>

lemma on_entry_selected_rounds:
  "on_entry_selected (example_env gen) example_app ''x18014398509481986''
     = (on_update (example_env gen)
          (example_app\<lparr>mode := ''x'', edit_index := 9007199254740992\<rparr>) False, None)"
proof -
  have "int_of_digits ''18014398509481986'' = 18014398509481986"
    by (simp add: int_of_digits_def)
  then have "int_int_half 4300 ''18014398509481986'' = Inr 9007199254740992"
    by (simp add: int_int_half_def py_int_def int_half_rounds)
  moreover have "match_ref ''x18014398509481986'' = Some (''x'', Some ''18014398509481986'')"
    by (simp add: match_ref_def is_lower_def is_digit_def less_eq_char_def)
  ultimately show ?thesis
    by (simp add: on_entry_selected_def example_env_def Let_def)
qed

end
